theory Spec2Isabelle
  imports Main
begin

section \<open>Error taxonomy (app/core/errors.py, app/core/exceptions.py)\<close>

text \<open>
  \<^verbatim>\<open>ErrorKeys\<close> is a string enum whose member values are the lower-cased member
  names, so a member and its name are the same dictionary key. The codes carried by the
  exceptions are plain strings (a caller may pass any string), hence \<open>string\<close> here.
\<close>

datatype ErrorKeys =
    internal_error | keycloak_error | keycloak_callback_error | unauthorized
  | token_not_active | token_not_found | validation_error | invalid_request
  | invalid_ack_state | database_error

fun name_of :: "ErrorKeys \<Rightarrow> string" where
  "name_of internal_error = ''internal_error''"
| "name_of keycloak_error = ''keycloak_error''"
| "name_of keycloak_callback_error = ''keycloak_callback_error''"
| "name_of unauthorized = ''unauthorized''"
| "name_of token_not_active = ''token_not_active''"
| "name_of token_not_found = ''token_not_found''"
| "name_of validation_error = ''validation_error''"
| "name_of invalid_request = ''invalid_request''"
| "name_of invalid_ack_state = ''invalid_ack_state''"
| "name_of database_error = ''database_error''"

definition errors_mapping :: "(string \<times> nat) list" where
  "errors_mapping =
    [(name_of keycloak_error, 502),
     (name_of keycloak_callback_error, 502),
     (name_of unauthorized, 401),
     (name_of token_not_active, 401),
     (name_of token_not_found, 404),
     (name_of validation_error, 400),
     (name_of invalid_request, 400),
     (name_of invalid_ack_state, 400),
     (name_of internal_error, 500),
     (name_of database_error, 502)]"

text \<open>The exception classes of app/core/exceptions.py; all derive from the first.\<close>

datatype exc_class =
    AuthManagerError | KeycloakError | InvalidStateTokenError | TokenNotFoundError
  | UnauthorizedError | TokenNotActiveError | ValidationError | InvalidRequestError
  | DatabaseError

text \<open>A value of the \<^verbatim>\<open>details\<close> dictionary: a string or a number.\<close>

datatype detail = DStr string | DInt nat

record auth_error =
  cls :: exc_class
  message :: string
  code :: string
  details :: "(string \<times> detail) list"

fun default_code :: "exc_class \<Rightarrow> string" where
  "default_code AuthManagerError = ''error''"
| "default_code KeycloakError = name_of keycloak_error"
| "default_code InvalidStateTokenError = name_of invalid_ack_state"
| "default_code TokenNotFoundError = name_of token_not_found"
| "default_code UnauthorizedError = name_of unauthorized"
| "default_code TokenNotActiveError = name_of token_not_active"
| "default_code ValidationError = name_of validation_error"
| "default_code InvalidRequestError = name_of invalid_request"
| "default_code DatabaseError = name_of database_error"

text \<open>
  \<^verbatim>\<open>C(message)\<close>, \<^verbatim>\<open>C(message, code)\<close> and \<^verbatim>\<open>C(message, details=d)\<close>: the
  constructor stores \<^verbatim>\<open>details or {}\<close>.
\<close>

definition raise_new :: "exc_class \<Rightarrow> string \<Rightarrow> auth_error" where
  "raise_new c msg = \<lparr>cls = c, message = msg, code = default_code c, details = []\<rparr>"

definition raise_new_code :: "exc_class \<Rightarrow> string \<Rightarrow> string \<Rightarrow> auth_error" where
  "raise_new_code c msg cd = \<lparr>cls = c, message = msg, code = cd, details = []\<rparr>"

definition raise_new_details ::
  "exc_class \<Rightarrow> string \<Rightarrow> (string \<times> detail) list \<Rightarrow> auth_error" where
  "raise_new_details c msg d = \<lparr>cls = c, message = msg, code = default_code c, details = d\<rparr>"

text \<open>
  Everything a block of the program can raise: a domain error, or one of the exceptions
  that are not domain errors (SQLAlchemy's two row-count exceptions and its integrity
  error, a failed \<^verbatim>\<open>assert\<close>, a \<^verbatim>\<open>TypeError\<close>, and whatever a collaborator outside
  the repository raises, kept by name).
\<close>

datatype exn =
    DomainError auth_error
  | NoResultFound
  | MultipleResultsFound
  | IntegrityError
  | AssertionError
  | TypeError
  | Foreign string

text \<open>Sequencing of two steps: the second runs only when the first did not raise.\<close>

definition and_then :: "exn + 'a \<Rightarrow> ('a \<Rightarrow> exn + 'b) \<Rightarrow> exn + 'b" where
  "and_then m f = (case m of Inl e \<Rightarrow> Inl e | Inr x \<Rightarrow> f x)"

text \<open>
  \<^verbatim>\<open>auth_manager_error_handler\<close> (app/core/exceptions_handler.py): the HTTP status of a
  domain error is looked up by its code, 500 when the code is not a key.
\<close>

definition status_code_of :: "auth_error \<Rightarrow> nat" where
  "status_code_of e = (case map_of errors_mapping (code e) of Some s \<Rightarrow> s | None \<Rightarrow> 500)"

section \<open>Guards (app/core/guards.py)\<close>

text \<open>
  A \<^verbatim>\<open>with\<close> block is the result of its body; the guard is what the context manager
  does around it.
\<close>

definition raise_if_not_found_guard :: "exn \<Rightarrow> exn + 'a \<Rightarrow> exn + 'a" where
  "raise_if_not_found_guard exc body =
     (case body of Inl NoResultFound \<Rightarrow> Inl exc | r \<Rightarrow> r)"

definition invariant_guard :: "'v \<Rightarrow> ('v \<Rightarrow> bool) \<Rightarrow> exn \<Rightarrow> ('v \<Rightarrow> exn + 'a) \<Rightarrow> exn + 'a" where
  "invariant_guard v condition exc body = (if condition v then Inl exc else body v)"

text \<open>
  \<^verbatim>\<open>auth_error_guard(exc, error_message)\<close>: only domain errors are caught. A class is
  truthy, so \<^verbatim>\<open>if exc\<close> is the test for a given class; \<^verbatim>\<open>ex.message or error_message\<close>
  is the original message unless that is empty.
\<close>

definition auth_error_guard :: "exc_class option \<Rightarrow> string \<Rightarrow> exn + 'a \<Rightarrow> exn + 'a" where
  "auth_error_guard exc error_message body =
     (case body of
        Inl (DomainError ex) \<Rightarrow>
          (case exc of
             Some c \<Rightarrow> Inl (DomainError (raise_new c error_message))
           | None \<Rightarrow>
               Inl (DomainError \<lparr>cls = AuthManagerError,
                            message = (if message ex = [] then error_message else message ex),
                            code = code ex,
                            details = details ex\<rparr>))
      | r \<Rightarrow> r)"

section \<open>Persistence (app/db/models.py, app/db/repositories/token_vault.py)\<close>

datatype TokenType = OFFLINE | REFRESH

text \<open>
  A UUID is kept as its canonical text, so \<^verbatim>\<open>str(id)\<close> is the identifier itself. Timestamps
  are seconds. A row of the table \<^verbatim>\<open>auth_vault\<close>; \<^verbatim>\<open>VaultEntry.model_validate\<close>
  copies a row field by field into the domain model, which has the same fields, so one
  record stands for both. The field \<^verbatim>\<open>id\<close> is \<open>id'\<close> here.
\<close>

type_synonym uuid = string

record AuthVault =
  id' :: uuid
  user_id :: uuid
  token_type :: TokenType
  encrypted_token :: "string option"
  iv :: "string option"
  token_hash :: "string option"
  attributes :: "(string \<times> string) list option"
  session_state_id :: string
  created_at :: int
  updated_at :: "int option"

type_synonym VaultEntry = AuthVault

text \<open>
  What one operation draws from outside the program: the \<^verbatim>\<open>uuid4\<close> default of a new
  row's id, the random vector of \<^verbatim>\<open>generate_iv\<close>, and the database clock behind
  \<^verbatim>\<open>func.now()\<close>.
\<close>

record ambient =
  uuid4 :: uuid
  generate_iv :: string
  now :: int

text \<open>SQLAlchemy's \<^verbatim>\<open>Result.scalar_one\<close> and \<^verbatim>\<open>Result.scalar_one_or_none\<close>.\<close>

definition scalar_one :: "'a list \<Rightarrow> exn + 'a" where
  "scalar_one rs =
     (case rs of [] \<Rightarrow> Inl NoResultFound | [r] \<Rightarrow> Inr r | _ \<Rightarrow> Inl MultipleResultsFound)"

definition scalar_one_or_none :: "'a list \<Rightarrow> exn + 'a option" where
  "scalar_one_or_none rs =
     (case rs of [] \<Rightarrow> Inr None | [r] \<Rightarrow> Inr (Some r) | _ \<Rightarrow> Inl MultipleResultsFound)"

text \<open>
  \<^verbatim>\<open>if token_type: query = query.where(...)\<close>: every member of the string enum is a
  non-empty string, so the test is the test for \<^verbatim>\<open>None\<close>.
\<close>

definition where_token_type :: "TokenType option \<Rightarrow> AuthVault list \<Rightarrow> AuthVault list" where
  "where_token_type tt rs =
     (case tt of None \<Rightarrow> rs | Some t \<Rightarrow> filter (\<lambda>r. token_type r = t) rs)"

definition order_by_created_at_desc :: "AuthVault list \<Rightarrow> AuthVault list" where
  "order_by_created_at_desc rs = rev (sort_key created_at rs)"

text \<open>
  \<^verbatim>\<open>create\<close>: the id is the primary key, so an id already in the table is refused by
  the database; the new row has no update time.
\<close>

definition VaultRepository_create ::
  "ambient \<Rightarrow> AuthVault list \<Rightarrow> uuid \<Rightarrow> TokenType \<Rightarrow> string \<Rightarrow> string \<Rightarrow> string \<Rightarrow> string
     \<Rightarrow> (string \<times> string) list option \<Rightarrow> exn + (VaultEntry \<times> AuthVault list)" where
  "VaultRepository_create amb db uid ttype enc_token iv' thash session attrs =
     (if uuid4 amb \<in> set (map id' db) then Inl IntegrityError
      else
        let entry = \<lparr>id' = uuid4 amb, user_id = uid, token_type = ttype,
                      encrypted_token = Some enc_token, iv = Some iv', token_hash = Some thash,
                      attributes = attrs, session_state_id = session,
                      created_at = now amb, updated_at = None\<rparr>
        in Inr (entry, db @ [entry]))"


definition VaultRepository_retrieve_by_user_id ::
  "AuthVault list \<Rightarrow> uuid \<Rightarrow> TokenType option \<Rightarrow> exn + VaultEntry option" where
  "VaultRepository_retrieve_by_user_id db uid tt =
     scalar_one_or_none
       (order_by_created_at_desc (where_token_type tt (filter (\<lambda>r. user_id r = uid) db)))"

definition VaultRepository_retrieve_or_raise_by_session_state_id ::
  "AuthVault list \<Rightarrow> string \<Rightarrow> TokenType option \<Rightarrow> exn + VaultEntry" where
  "VaultRepository_retrieve_or_raise_by_session_state_id db session tt =
     scalar_one (where_token_type tt (filter (\<lambda>r. session_state_id r = session) db))"

definition VaultRepository_retrieve_by_session_state_id ::
  "AuthVault list \<Rightarrow> string \<Rightarrow> TokenType option \<Rightarrow> exn + VaultEntry option" where
  "VaultRepository_retrieve_by_session_state_id db session tt =
     scalar_one_or_none (where_token_type tt (filter (\<lambda>r. session_state_id r = session) db))"


definition VaultRepository_check_duplicate_token_hash ::
  "AuthVault list \<Rightarrow> string \<Rightarrow> uuid \<Rightarrow> exn + bool" where
  "VaultRepository_check_duplicate_token_hash db thash exclude_id =
     and_then (scalar_one_or_none (filter (\<lambda>r. token_hash r = Some thash \<and> id' r \<noteq> exclude_id) db))
       (\<lambda>r. Inr (r \<noteq> None))"

text \<open>
  \<^verbatim>\<open>upsert_refresh_token\<close>: the UPDATE touches every row whose id is the existing
  entry's and sets the update time (\<^verbatim>\<open>onupdate=func.now()\<close>); the result is the row's id.
\<close>

definition VaultRepository_upsert_refresh_token ::
  "ambient \<Rightarrow> AuthVault list \<Rightarrow> uuid \<Rightarrow> string \<Rightarrow> string \<Rightarrow> string \<Rightarrow> string
     \<Rightarrow> (string \<times> string) list option \<Rightarrow> exn + (string \<times> AuthVault list)" where
  "VaultRepository_upsert_refresh_token amb db uid enc_token iv' thash session attrs =
     (case VaultRepository_retrieve_by_user_id db uid (Some REFRESH) of
        Inl e \<Rightarrow> Inl e
      | Inr (Some existing) \<Rightarrow>
          Inr (id' existing,
               map (\<lambda>r. if id' r = id' existing
                         then r\<lparr>encrypted_token := Some enc_token, iv := Some iv',
                                token_hash := Some thash, session_state_id := session,
                                attributes := attrs, updated_at := Some (now amb)\<rparr>
                         else r) db)
      | Inr None \<Rightarrow>
          (case VaultRepository_create amb db uid REFRESH enc_token iv' thash session attrs of
             Inl e \<Rightarrow> Inl e
           | Inr (entry, db') \<Rightarrow> Inr (id' entry, db')))"


section \<open>Vault service (app/services/token_vault.py)\<close>

text \<open>
  The encryption service (app/services/encryption.py) is outside the sources given: its
  three operations on token material are parameters. Decryption may raise.
\<close>

record EncryptionService =
  encrypt_token :: "string \<Rightarrow> string \<Rightarrow> string"
  decrypt_token :: "string \<Rightarrow> string \<Rightarrow> exn + string"
  hash_token :: "string \<Rightarrow> string"

text \<open>Python's \<^verbatim>\<open>not x\<close> for an optional string: \<^verbatim>\<open>None\<close> and the empty string.\<close>

definition falsy :: "string option \<Rightarrow> bool" where
  "falsy x = (case x of None \<Rightarrow> True | Some s \<Rightarrow> s = [])"

text \<open>
  The body shared by the reading operations: the two \<^verbatim>\<open>assert ... is not None\<close>, then
  \<^verbatim>\<open>decrypt_token(entry.encrypted_token, entry.iv)\<close>.
\<close>

definition assert_and_decrypt :: "EncryptionService \<Rightarrow> VaultEntry \<Rightarrow> exn + string" where
  "assert_and_decrypt enc e =
     (case encrypted_token e of
        None \<Rightarrow> Inl AssertionError
      | Some c \<Rightarrow>
          (case iv e of None \<Rightarrow> Inl AssertionError | Some i \<Rightarrow> decrypt_token enc c i))"

definition VaultService_store ::
  "EncryptionService \<Rightarrow> ambient \<Rightarrow> AuthVault list \<Rightarrow> uuid \<Rightarrow> string \<Rightarrow> TokenType \<Rightarrow> string
     \<Rightarrow> (string \<times> string) list option \<Rightarrow> exn + (VaultEntry \<times> AuthVault list)" where
  "VaultService_store enc amb db uid token ttype session attrs =
     (let iv' = generate_iv amb;
          enc_token = encrypt_token enc token iv';
          thash = hash_token enc token
      in VaultRepository_create amb db uid ttype enc_token iv' thash session attrs)"


definition VaultService_upsert_refresh_token ::
  "EncryptionService \<Rightarrow> ambient \<Rightarrow> AuthVault list \<Rightarrow> uuid \<Rightarrow> string \<Rightarrow> string
     \<Rightarrow> (string \<times> string) list option \<Rightarrow> exn + (string \<times> AuthVault list)" where
  "VaultService_upsert_refresh_token enc amb db uid token session attrs =
     (let iv' = generate_iv amb;
          enc_token = encrypt_token enc token iv';
          thash = hash_token enc token
      in VaultRepository_upsert_refresh_token amb db uid enc_token iv' thash session attrs)"

definition VaultService_retrieve_or_raise_by_session_state_id ::
  "EncryptionService \<Rightarrow> AuthVault list \<Rightarrow> string \<Rightarrow> TokenType option
     \<Rightarrow> exn + (VaultEntry \<times> string)" where
  "VaultService_retrieve_or_raise_by_session_state_id enc db session tt =
     and_then
       (raise_if_not_found_guard
          (DomainError (raise_new_code DatabaseError
             ''No token found for the session/type requested'' ''entity_not_found''))
          (VaultRepository_retrieve_or_raise_by_session_state_id db session tt))
       (\<lambda>entry.
          invariant_guard entry (\<lambda>e. falsy (encrypted_token e) \<or> falsy (iv e))
            (DomainError (raise_new TokenNotFoundError ''Token has no encrypted data''))
            (\<lambda>e. and_then (assert_and_decrypt enc e)
                    (\<lambda>decrypted_token. Inr (entry, decrypted_token))))"

text \<open>\<^verbatim>\<open>if entry\<close>: a domain-model object is always truthy.\<close>

definition VaultService_retrieve_by_session_state_id ::
  "EncryptionService \<Rightarrow> AuthVault list \<Rightarrow> string \<Rightarrow> TokenType option
     \<Rightarrow> exn + (VaultEntry \<times> string) option" where
  "VaultService_retrieve_by_session_state_id enc db session tt =
     and_then (VaultRepository_retrieve_by_session_state_id db session tt)
       (\<lambda>entry.
          case entry of
            Some e \<Rightarrow>
              and_then (assert_and_decrypt enc e)
                (\<lambda>decrypted_token. Inr (Some (e, decrypted_token)))
          | None \<Rightarrow> Inr None)"

text \<open>
  \<^verbatim>\<open>get_by_user_id\<close>: the first block is the repository call followed by
  \<^verbatim>\<open>assert entry\<close>, under a guard that rewrites \<^verbatim>\<open>NoResultFound\<close> only.
\<close>

definition VaultService_get_by_user_id ::
  "EncryptionService \<Rightarrow> AuthVault list \<Rightarrow> uuid \<Rightarrow> TokenType option
     \<Rightarrow> exn + (VaultEntry \<times> string) option" where
  "VaultService_get_by_user_id enc db uid tt =
     and_then
       (raise_if_not_found_guard
          (DomainError (raise_new DatabaseError ''No Token found for the user/type requested''))
          (and_then (VaultRepository_retrieve_by_user_id db uid tt)
             (\<lambda>entry. case entry of None \<Rightarrow> Inl AssertionError | Some e \<Rightarrow> Inr e)))
       (\<lambda>entry.
          invariant_guard entry (\<lambda>e. falsy (encrypted_token e) \<or> falsy (iv e))
            (DomainError (raise_new ValidationError ''Token has no encrypted data''))
            (\<lambda>en. and_then (assert_and_decrypt enc en)
                     (\<lambda>decrypted_token. Inr (Some (en, decrypted_token)))))"



section \<open>Identity-provider gateway (app/services/keycloak.py)\<close>

text \<open>The models of app/models/domain.py; a field whose name another record has carries a prefix.\<close>

record KeycloakTokenResponse =
  access_token :: string
  expires_in :: int
  refresh_expires_in :: "int option"
  refresh_token :: "string option"
  kc_token_type :: string
  id_token :: "string option"
  not_before_policy :: int
  scope :: "string option"
  session_state :: string

record TokenIntrospection =
  active :: bool
  ti_exp :: "int option"
  ti_iat :: "int option"
  sub :: "uuid option"
  sid :: "string option"
  ti_scope :: "string option"
  client_id :: "string option"
  username :: "string option"
  ti_token_type :: "string option"

record ValidatedToken =
  vt_user_id :: uuid
  vt_session_state_id :: string
  vt_access_token :: string

text \<open>
  The provider itself is outside the program. What the python-keycloak client and the HTTP
  client answer is a parameter: a grant or an introspection either gives its result or
  raises \<^verbatim>\<open>KeycloakPostError\<close> with a response code and body (\<open>Inl\<close>); the HTTP DELETE
  gives a status code and a body text.
\<close>

record KeycloakSDK =
  a_refresh_token :: "string \<Rightarrow> (nat \<times> string) + KeycloakTokenResponse"
  a_introspect :: "string \<Rightarrow> (nat \<times> string) + TokenIntrospection"
  a_token_client_credentials :: "(nat \<times> string) + string"
  net_delete :: "string \<Rightarrow> string \<Rightarrow> nat \<times> string"

record KeycloakService =
  issuer :: string
  realm :: string
  client :: KeycloakSDK

definition KeycloakPostError_details :: "nat \<times> string \<Rightarrow> (string \<times> detail) list" where
  "KeycloakPostError_details e = [(''code'', DInt (fst e)), (''body'', DStr (snd e))]"

definition KeycloakService_refresh_access_token ::
  "KeycloakService \<Rightarrow> string \<Rightarrow> exn + KeycloakTokenResponse" where
  "KeycloakService_refresh_access_token kc rtoken =
     (case a_refresh_token (client kc) rtoken of
        Inr result \<Rightarrow> Inr result
      | Inl e \<Rightarrow>
          Inl (DomainError (raise_new_details KeycloakError ''Token refresh failed''
                 (KeycloakPostError_details e))))"

definition KeycloakService_request_offline_token ::
  "KeycloakService \<Rightarrow> string \<Rightarrow> exn + KeycloakTokenResponse" where
  "KeycloakService_request_offline_token kc offline_token =
     (case a_refresh_token (client kc) offline_token of
        Inr result \<Rightarrow> Inr result
      | Inl e \<Rightarrow>
          Inl (DomainError (raise_new_details KeycloakError ''Offline token request failed''
                 (KeycloakPostError_details e))))"




section \<open>Bearer-token dependencies (app/core/security.py)\<close>









section \<open>Endpoints (app/api/v1)\<close>


record RefreshTokenIdResult =
  rt_persistent_token_id :: string



text \<open>
  \<^verbatim>\<open>make_new_refresh_token_id\<close> (refresh_token_id.py), after its dependencies have given
  the validated token. The result comes with the table as the request leaves it. The last
  block hands \<^verbatim>\<open>new_token_response.refresh_token\<close> to the vault whatever it is; the
  encryption service is not written for \<^verbatim>\<open>None\<close>, and what it raises then is kept as a
  foreign exception.
\<close>

definition make_new_refresh_token_id ::
  "KeycloakService \<Rightarrow> EncryptionService \<Rightarrow> ambient \<Rightarrow> AuthVault list \<Rightarrow> ValidatedToken
     \<Rightarrow> (exn + RefreshTokenIdResult) \<times> AuthVault list" where
  "make_new_refresh_token_id keycloak enc amb db validated_token =
     (let uid = vt_user_id validated_token;
          session_id = vt_session_state_id validated_token
      in case auth_error_guard None ''No refresh token was found with this session''
                (VaultService_retrieve_or_raise_by_session_state_id enc db session_id
                   (Some REFRESH)) of
           Inl e \<Rightarrow> (Inl e, db)
         | Inr (entry, decrypted_token) \<Rightarrow>
             (case invariant_guard entry (\<lambda>e. falsy (encrypted_token e) \<or> falsy (iv e))
                     (DomainError (raise_new_code TokenNotFoundError
                        ''No encrypted refresh token was found'' (name_of token_not_found)))
                     (\<lambda>_. KeycloakService_refresh_access_token keycloak decrypted_token) of
                Inl e \<Rightarrow> (Inl e, db)
              | Inr new_token_response \<Rightarrow>
                  (case invariant_guard new_token_response (\<lambda>e. refresh_token e \<noteq> None)
                          (DomainError (raise_new KeycloakError ''No refresh token was generated''))
                          (\<lambda>e. case refresh_token e of
                                  None \<Rightarrow> Inl (Foreign ''encrypt_token(None)'')
                                | Some t \<Rightarrow>
                                    VaultService_upsert_refresh_token enc amb db uid t
                                      (session_state e) (Some [(''session_id'', session_id)])) of
                     Inl e \<Rightarrow> (Inl e, db)
                   | Inr (new_token_id, db') \<Rightarrow>
                       (Inr \<lparr>rt_persistent_token_id = new_token_id\<rparr>, db'))))"


section \<open>State-token service (app/services/state_token.py)\<close>





















section \<open>Vocabulary of the properties\<close>


text \<open>
  One call of the vault service's upsert for a user: what it draws from outside and its
  arguments. A sequence of calls runs one after the other on the table and stops at the
  first that raises.
\<close>

record upsert_call =
  drawn :: ambient
  call_token :: string
  call_session :: string
  call_attrs :: "(string \<times> string) list option"

fun upsert_all ::
  "EncryptionService \<Rightarrow> uuid \<Rightarrow> AuthVault list \<Rightarrow> upsert_call list \<Rightarrow> exn + AuthVault list" where
  "upsert_all enc U db [] = Inr db"
| "upsert_all enc U db (c # cs) =
     (case VaultService_upsert_refresh_token enc (drawn c) db U (call_token c) (call_session c)
             (call_attrs c) of
        Inl e \<Rightarrow> Inl e
      | Inr (_, db') \<Rightarrow> upsert_all enc U db' cs)"

definition refresh_rows :: "uuid \<Rightarrow> AuthVault list \<Rightarrow> AuthVault list" where
  "refresh_rows U db = filter (\<lambda>r. user_id r = U \<and> token_type r = REFRESH) db"

definition written_by :: "EncryptionService \<Rightarrow> upsert_call \<Rightarrow> AuthVault \<Rightarrow> bool" where
  "written_by enc c r \<longleftrightarrow>
     encrypted_token r = Some (encrypt_token enc (call_token c) (generate_iv (drawn c))) \<and>
     iv r = Some (generate_iv (drawn c)) \<and>
     token_hash r = Some (hash_token enc (call_token c)) \<and>
     session_state_id r = call_session c \<and>
     attributes r = call_attrs c"







text \<open>
  Concrete collaborators for the closed instances below: an encryption service that
  prefixes the vector to the token, and a provider whose answers are fixed.
\<close>

definition sample_encryption :: EncryptionService where
  "sample_encryption =
     \<lparr>encrypt_token = (\<lambda>t v. v @ t),
      decrypt_token = (\<lambda>c v. if take (length v) c = v then Inr (drop (length v) c)
                               else Inl (Foreign ''InvalidTag'')),
      hash_token = rev\<rparr>"

definition sample_call :: "uuid \<Rightarrow> string \<Rightarrow> string \<Rightarrow> string \<Rightarrow> int \<Rightarrow> upsert_call" where
  "sample_call i v t s c =
     \<lparr>drawn = \<lparr>uuid4 = i, generate_iv = v, now = c\<rparr>, call_token = t, call_session = s,
      call_attrs = None\<rparr>"

definition sample_row :: "uuid \<Rightarrow> uuid \<Rightarrow> TokenType \<Rightarrow> string \<Rightarrow> int \<Rightarrow> AuthVault" where
  "sample_row i u t s c =
     \<lparr>id' = i, user_id = u, token_type = t, encrypted_token = Some ''ivtok'', iv = Some ''iv'',
      token_hash = Some ''kot'', attributes = None, session_state_id = s, created_at = c,
      updated_at = None\<rparr>"

definition sample_response :: "string option \<Rightarrow> KeycloakTokenResponse" where
  "sample_response rt =
     \<lparr>access_token = ''at'', expires_in = 300, refresh_expires_in = None, refresh_token = rt,
      kc_token_type = ''Bearer'', id_token = None, not_before_policy = 0, scope = None,
      session_state = ''s2''\<rparr>"

definition sample_introspection :: "bool \<Rightarrow> uuid option \<Rightarrow> string option \<Rightarrow> TokenIntrospection" where
  "sample_introspection a u s =
     \<lparr>active = a, ti_exp = None, ti_iat = None, sub = u, sid = s, ti_scope = None,
      client_id = None, username = None, ti_token_type = None\<rparr>"

definition sample_keycloak ::
  "TokenIntrospection \<Rightarrow> KeycloakTokenResponse \<Rightarrow> nat \<Rightarrow> KeycloakService" where
  "sample_keycloak info resp delete_status =
     \<lparr>issuer = ''https://idp'', realm = ''r'',
      client = \<lparr>a_refresh_token = (\<lambda>_. Inr resp),
                a_introspect = (\<lambda>_. Inr info),
                a_token_client_credentials = Inr ''admin'',
                net_delete = (\<lambda>_ _. (delete_status, []))\<rparr>\<rparr>"

section \<open>Properties\<close>

subsection \<open>The error-rewrap block\<close>

text \<open>
  C9, as stated, fails: with no error type given, the block keeps the message of the
  error it caught. Here the block of \<^verbatim>\<open>make_offline_token\<close> catches the
  "Token has no encrypted data" error of the vault service; the error that leaves the
  block still carries that message, not the block's own.
\<close>

theorem auth_error_guard_keeps_message_counterexample:
  "auth_error_guard None ''No offline token was found to generate a new one''
     (Inl (DomainError (raise_new TokenNotFoundError ''Token has no encrypted data'')) :: exn + unit)
   = Inl (DomainError \<lparr>cls = AuthManagerError, message = ''Token has no encrypted data'',
                  code = ''token_not_found'', details = []\<rparr>)
   \<and> ''Token has no encrypted data'' \<noteq> ''No offline token was found to generate a new one''"
  by (simp add: auth_error_guard_def raise_new_def)

text \<open>
  C9, amended: for every domain error E raised inside an error-rewrap block with no
  caller-specified error type, the block re-raises the generic domain error with E's code
  and details, whose message is E's own message, and the block's supplied message only
  when E's message is empty; with a caller-specified error type it re-raises that type
  with the supplied message (and that type's default code, no details).
\<close>

theorem auth_error_guard_rewrap:
  "auth_error_guard None msg (Inl (DomainError E))
     = Inl (DomainError \<lparr>cls = AuthManagerError,
                    message = (if message E = [] then msg else message E),
                    code = code E, details = details E\<rparr>)
   \<and> auth_error_guard (Some c) msg (Inl (DomainError E))
     = Inl (DomainError \<lparr>cls = c, message = msg, code = default_code c, details = []\<rparr>)"
  by (simp add: auth_error_guard_def raise_new_def)

subsection \<open>The upsert invariant\<close>

lemma scalar_one_or_none_Some: "scalar_one_or_none rs = Inr (Some r) \<Longrightarrow> rs = [r]"
  by (auto simp: scalar_one_or_none_def split: list.splits)

lemma scalar_one_or_none_None: "scalar_one_or_none rs = Inr None \<Longrightarrow> rs = []"
  by (auto simp: scalar_one_or_none_def split: list.splits)

lemma rev_sort_key_single: "rev (sort_key f xs) = [r] \<Longrightarrow> xs = [r]"
proof -
  assume a: "rev (sort_key f xs) = [r]"
  then have "length xs = 1"
    by (metis length_rev length_sort length_Cons list.size(3) One_nat_def)
  moreover from a have "set xs = {r}"
    by (metis set_rev set_sort list.simps(15) empty_set)
  ultimately show ?thesis by (cases xs) auto
qed

lemma rev_sort_key_nil: "rev (sort_key f xs) = [] \<Longrightarrow> xs = []"
  by (metis length_rev length_sort length_0_conv)

lemma retrieve_by_user_Some:
  "VaultRepository_retrieve_by_user_id db U (Some REFRESH) = Inr (Some e)
   \<Longrightarrow> refresh_rows U db = [e]"
  unfolding VaultRepository_retrieve_by_user_id_def order_by_created_at_desc_def
    where_token_type_def refresh_rows_def
  by (auto dest!: scalar_one_or_none_Some rev_sort_key_single simp: conj_commute)

lemma retrieve_by_user_None:
  "VaultRepository_retrieve_by_user_id db U (Some REFRESH) = Inr None
   \<Longrightarrow> refresh_rows U db = []"
  unfolding VaultRepository_retrieve_by_user_id_def order_by_created_at_desc_def
    where_token_type_def refresh_rows_def
  by (auto dest!: scalar_one_or_none_None rev_sort_key_nil simp: conj_commute)

lemma filter_map_same:
  "(\<And>x. P (f x) = P x) \<Longrightarrow> filter P (map f xs) = map f (filter P xs)"
  by (induction xs) auto

text \<open>One successful upsert leaves exactly one REFRESH row for the user, the one it wrote.\<close>

lemma upsert_step:
  assumes "VaultService_upsert_refresh_token enc (drawn c) db U (call_token c) (call_session c)
             (call_attrs c) = Inr (i, db')"
  shows "\<exists>r. refresh_rows U db' = [r] \<and> written_by enc c r \<and> id' r = i"
proof (cases "VaultRepository_retrieve_by_user_id db U (Some REFRESH)")
  case (Inl e)
  with assms show ?thesis
    by (simp add: VaultService_upsert_refresh_token_def
        VaultRepository_upsert_refresh_token_def Let_def)
next
  case (Inr found)
  show ?thesis
  proof (cases found)
    case None
    with Inr have rows: "refresh_rows U db = []" by (simp add: retrieve_by_user_None)
    from assms Inr None rows show ?thesis
      by (auto simp: VaultService_upsert_refresh_token_def
          VaultRepository_upsert_refresh_token_def VaultRepository_create_def Let_def
          refresh_rows_def written_by_def split: if_splits)
  next
    case (Some existing)
    with Inr have rows: "refresh_rows U db = [existing]" by (simp add: retrieve_by_user_Some)
    define upd where "upd = (\<lambda>r::AuthVault. if id' r = id' existing
        then r\<lparr>encrypted_token := Some (encrypt_token enc (call_token c) (generate_iv (drawn c))),
               iv := Some (generate_iv (drawn c)),
               token_hash := Some (hash_token enc (call_token c)),
               session_state_id := call_session c,
               attributes := call_attrs c, updated_at := Some (now (drawn c))\<rparr>
        else r)"
    have keep: "\<And>r. (user_id (upd r) = U \<and> token_type (upd r) = REFRESH)
                   = (user_id r = U \<and> token_type r = REFRESH)"
      by (simp add: upd_def)
    from assms Inr Some have db': "db' = map upd db" and i: "i = id' existing"
      by (auto simp: VaultService_upsert_refresh_token_def
          VaultRepository_upsert_refresh_token_def Let_def upd_def)
    have "refresh_rows U db' = map upd (refresh_rows U db)"
      unfolding db' refresh_rows_def by (rule filter_map_same) (rule keep)
    with rows have "refresh_rows U db' = [upd existing]" by simp
    moreover have "written_by enc c (upd existing)" by (simp add: upd_def written_by_def)
    moreover have "id' (upd existing) = i" by (simp add: upd_def i)
    ultimately show ?thesis by blast
  qed
qed

text \<open>
  C1: for every user U, every table and every non-empty sequence of upsert calls for U
  that all succeed, run one after the other, the table afterwards holds exactly one
  REFRESH row of U, and its encrypted token, vector, hash, session and attributes are
  those the last call derived from its arguments.
\<close>

theorem upsert_refresh_leaves_one_row:
  assumes "calls \<noteq> []" and "upsert_all enc U db calls = Inr db'"
  shows "\<exists>r. refresh_rows U db' = [r] \<and> written_by enc (last calls) r"
  using assms
proof (induction calls arbitrary: db)
  case Nil
  then show ?case by simp
next
  case (Cons c cs)
  from Cons.prems(2) obtain i db1 where
    step: "VaultService_upsert_refresh_token enc (drawn c) db U (call_token c) (call_session c)
             (call_attrs c) = Inr (i, db1)"
    and rest: "upsert_all enc U db1 cs = Inr db'"
    by (auto split: sum.splits)
  show ?case
  proof (cases "cs = []")
    case True
    with rest have "db' = db1" by simp
    with upsert_step[OF step] True show ?thesis by auto
  next
    case False
    with Cons.IH[OF False rest] show ?thesis by simp
  qed
qed

text \<open>Two calls on the empty table: the first inserts, the second rewrites that row.\<close>

lemma two_upserts_run:
  "upsert_all sample_encryption ''u'' []
     [sample_call ''id1'' ''iv1'' ''t1'' ''s1'' 1, sample_call ''id2'' ''iv2'' ''t2'' ''s2'' 2]
   = Inr [\<lparr>id' = ''id1'', user_id = ''u'', token_type = REFRESH,
           encrypted_token = Some ''iv2t2'', iv = Some ''iv2'', token_hash = Some ''2t'',
           attributes = None, session_state_id = ''s2'', created_at = 1,
           updated_at = Some 2\<rparr>]"
  by (simp add: sample_call_def sample_encryption_def VaultService_upsert_refresh_token_def
      VaultRepository_upsert_refresh_token_def VaultRepository_retrieve_by_user_id_def
      VaultRepository_create_def where_token_type_def order_by_created_at_desc_def
      scalar_one_or_none_def Let_def)

theorem upsert_refresh_leaves_one_row_witness:
  "[sample_call ''id1'' ''iv1'' ''t1'' ''s1'' 1, sample_call ''id2'' ''iv2'' ''t2'' ''s2'' 2] \<noteq> []
   \<and> upsert_all sample_encryption ''u'' []
        [sample_call ''id1'' ''iv1'' ''t1'' ''s1'' 1, sample_call ''id2'' ''iv2'' ''t2'' ''s2'' 2]
      = Inr [\<lparr>id' = ''id1'', user_id = ''u'', token_type = REFRESH,
              encrypted_token = Some ''iv2t2'', iv = Some ''iv2'', token_hash = Some ''2t'',
              attributes = None, session_state_id = ''s2'', created_at = 1,
              updated_at = Some 2\<rparr>]
   \<and> (\<exists>r. refresh_rows ''u''
              [\<lparr>id' = ''id1'', user_id = ''u'', token_type = REFRESH,
                encrypted_token = Some ''iv2t2'', iv = Some ''iv2'', token_hash = Some ''2t'',
                attributes = None, session_state_id = ''s2'', created_at = 1,
                updated_at = Some 2\<rparr>] = [r]
            \<and> written_by sample_encryption
                (last [sample_call ''id1'' ''iv1'' ''t1'' ''s1'' 1,
                       sample_call ''id2'' ''iv2'' ''t2'' ''s2'' 2]) r)"
proof -
  have ne: "[sample_call ''id1'' ''iv1'' ''t1'' ''s1'' 1,
             sample_call ''id2'' ''iv2'' ''t2'' ''s2'' 2] \<noteq> []" by simp
  from upsert_refresh_leaves_one_row[OF ne two_upserts_run] ne two_upserts_run
  show ?thesis by blast
qed

subsection \<open>Revocation of an offline token\<close>






lemma auth_error_guard_Inl: "\<exists>e'. auth_error_guard c m (Inl e) = Inl e'"
  by (simp add: auth_error_guard_def split: exn.splits option.splits)










subsection \<open>Validation of a bearer token\<close>





subsection \<open>Minting a new refresh-token id\<close>

text \<open>
  C4 at a failing input: the vault holds the user's refresh token for the session, the
  provider's refresh grant succeeds and returns the rotated refresh token \<open>''new''\<close>.
  The guard's condition is the one under which it raises, and it is written
  \<^verbatim>\<open>e.refresh_token is not None\<close>: the operation fails with "No refresh token was
  generated" and the table is unchanged.
\<close>

theorem make_new_refresh_token_id_rejects_rotated_token:
  "make_new_refresh_token_id
     (sample_keycloak (sample_introspection True (Some ''u'') (Some ''s'')) (sample_response (Some ''new'')) 204)
     sample_encryption \<lparr>uuid4 = ''id9'', generate_iv = ''iv9'', now = 9\<rparr>
     [sample_row ''a'' ''u'' REFRESH ''s'' 1]
     \<lparr>vt_user_id = ''u'', vt_session_state_id = ''s'', vt_access_token = ''t''\<rparr>
   = (Inl (DomainError \<lparr>cls = KeycloakError, message = ''No refresh token was generated'',
                         code = ''keycloak_error'', details = []\<rparr>),
      [sample_row ''a'' ''u'' REFRESH ''s'' 1])"
  by (simp add: make_new_refresh_token_id_def VaultService_retrieve_or_raise_by_session_state_id_def
      VaultRepository_retrieve_or_raise_by_session_state_id_def where_token_type_def scalar_one_def
      raise_if_not_found_guard_def invariant_guard_def and_then_def auth_error_guard_def
      assert_and_decrypt_def falsy_def sample_row_def sample_encryption_def sample_keycloak_def
      sample_response_def KeycloakService_refresh_access_token_def raise_new_def Let_def)

subsection \<open>Lookups of the vault\<close>

text \<open>
  C5 at a failing input: on the empty table the lookup by session fails with a
  \<^verbatim>\<open>DatabaseError\<close> whose code is \<open>''entity_not_found''\<close>, not with the not-found error;
  the code is no key of the status table, so the answer is a 500.
\<close>

theorem retrieve_or_raise_by_session_no_match:
  "VaultService_retrieve_or_raise_by_session_state_id sample_encryption [] ''s'' (Some OFFLINE)
   = Inl (DomainError \<lparr>cls = DatabaseError,
                        message = ''No token found for the session/type requested'',
                        code = ''entity_not_found'', details = []\<rparr>)
   \<and> status_code_of \<lparr>cls = DatabaseError,
                      message = ''No token found for the session/type requested'',
                      code = ''entity_not_found'', details = []\<rparr> = 500"
  by (simp add: VaultService_retrieve_or_raise_by_session_state_id_def
      VaultRepository_retrieve_or_raise_by_session_state_id_def where_token_type_def scalar_one_def
      raise_if_not_found_guard_def and_then_def raise_new_code_def status_code_of_def
      errors_mapping_def)

text \<open>
  C7 at failing inputs: \<^verbatim>\<open>get_by_user_id\<close> on the empty table runs into its
  \<^verbatim>\<open>assert entry\<close>; \<^verbatim>\<open>retrieve_by_session_state_id\<close> on a row without token material
  runs into its \<^verbatim>\<open>assert entry.encrypted_token is not None\<close>; \<^verbatim>\<open>get_by_user_id\<close> on
  such a row fails with the validation error, not the not-found error.
\<close>

theorem optional_lookups_assert:
  "VaultService_get_by_user_id sample_encryption [] ''u'' None = Inl AssertionError
   \<and> VaultService_retrieve_by_session_state_id sample_encryption
        [(sample_row ''a'' ''u'' OFFLINE ''s'' 1)\<lparr>encrypted_token := None, iv := None\<rparr>] ''s'' None
      = Inl AssertionError
   \<and> VaultService_get_by_user_id sample_encryption
        [(sample_row ''a'' ''u'' OFFLINE ''s'' 1)\<lparr>encrypted_token := None, iv := None\<rparr>] ''u'' None
      = Inl (DomainError \<lparr>cls = ValidationError, message = ''Token has no encrypted data'',
                           code = ''validation_error'', details = []\<rparr>)"
  by (simp add: VaultService_get_by_user_id_def VaultRepository_retrieve_by_user_id_def
      VaultService_retrieve_by_session_state_id_def VaultRepository_retrieve_by_session_state_id_def
      where_token_type_def order_by_created_at_desc_def scalar_one_or_none_def
      raise_if_not_found_guard_def and_then_def invariant_guard_def assert_and_decrypt_def
      falsy_def sample_row_def raise_new_def)

text \<open>
  C8 at a failing input: two OFFLINE rows of one user. The query orders them by creation
  time and then asks for at most one row.
\<close>

theorem retrieve_by_user_id_several_rows:
  "VaultRepository_retrieve_by_user_id
     [sample_row ''a'' ''u'' OFFLINE ''s1'' 1, sample_row ''b'' ''u'' OFFLINE ''s2'' 2] ''u''
     (Some OFFLINE) = Inl MultipleResultsFound"
  by (simp add: VaultRepository_retrieve_by_user_id_def where_token_type_def
      order_by_created_at_desc_def scalar_one_or_none_def sample_row_def)

subsection \<open>The state token\<close>









end
